theory Spec2Isabelle
  imports Complex_Main
begin

section \<open>Python's \<open>Decimal\<close>, as far as the shopping cart uses it\<close>

text \<open>
  \<open>update_example.py\<close> keeps prices and the cart total as \<open>decimal.Decimal\<close>.
  A finite \<open>Decimal\<close> is a sign, a coefficient and an exponent; its value is
  \<open>(-1)^sign * coefficient * 10^exponent\<close>. Arithmetic runs in the default context:
  28 significant digits, rounding half-even. The special values (\<open>NaN\<close>,
  \<open>Infinity\<close>) and the exponent limits of the context (\<open>Emax = 999999\<close>) are
  outside this model.
\<close>

datatype decimal = Decimal (dsign: bool) (dint: nat) (dexp: int)

definition prec :: nat where
  "prec = 28"

text \<open>The coefficient as Python holds it: a string of decimal digits, \<open>'0'\<close> for zero.\<close>

definition digit_char :: "nat \<Rightarrow> char" where
  "digit_char d = ''0123456789'' ! d"

function digits10 :: "nat \<Rightarrow> string" where
  "digits10 n = (if n < 10 then [digit_char n] else digits10 (n div 10) @ [digit_char (n mod 10)])"
  by pat_completeness auto
termination
  by (relation "measure id") auto

declare digits10.simps [simp del]

text \<open>
  \<open>Decimal._fix\<close>: a coefficient of more than \<open>prec\<close> digits is cut to \<open>prec\<close> digits,
  rounding half-even on what is cut; a carry out of the top digit drops one more digit.
\<close>

definition round_half_even :: "nat \<Rightarrow> nat \<Rightarrow> nat" where
  "round_half_even c k =
     (let p = 10 ^ k; q = c div p; r = c mod p
      in if 2 * r > p \<or> (2 * r = p \<and> odd q) then q + 1 else q)"

definition dec_fix :: "decimal \<Rightarrow> decimal" where
  "dec_fix d =
     (let n = length (digits10 (dint d))
      in if n \<le> prec then d
         else let k = n - prec; q = round_half_even (dint d) k
              in if length (digits10 q) > prec
                 then Decimal (dsign d) (q div 10) (dexp d + int k + 1)
                 else Decimal (dsign d) q (dexp d + int k))"

text \<open>\<open>Decimal(n)\<close> for a Python int.\<close>

definition dec_of_int :: "int \<Rightarrow> decimal" where
  "dec_of_int n = Decimal (n < 0) (nat \<bar>n\<bar>) 0"

text \<open>\<open>Decimal.__mul__\<close>: signs xor, coefficients multiply, exponents add; then \<open>_fix\<close>.\<close>

definition mul_exact :: "decimal \<Rightarrow> decimal \<Rightarrow> decimal" where
  "mul_exact a b = Decimal (dsign a \<noteq> dsign b) (dint a * dint b) (dexp a + dexp b)"

definition dec_mul :: "decimal \<Rightarrow> decimal \<Rightarrow> decimal" where
  "dec_mul a b = dec_fix (mul_exact a b)"

text \<open>The signed coefficient of a decimal brought to a lower or equal exponent \<open>e\<close>.\<close>

definition scaled :: "decimal \<Rightarrow> int \<Rightarrow> int" where
  "scaled a e = (if dsign a then - 1 else 1) * int (dint a) * 10 ^ nat (dexp a - e)"

text \<open>
  \<open>Decimal.__add__\<close>: the exact sum at the smaller exponent, then \<open>_fix\<close>. A zero sum
  is negative only when both operands are negative (zeros).
\<close>

definition add_exact :: "decimal \<Rightarrow> decimal \<Rightarrow> decimal" where
  "add_exact a b =
     (let e = min (dexp a) (dexp b); s = scaled a e + scaled b e
      in Decimal (if s = 0 then dsign a \<and> dsign b else s < 0) (nat \<bar>s\<bar>) e)"

definition dec_add :: "decimal \<Rightarrow> decimal \<Rightarrow> decimal" where
  "dec_add a b = dec_fix (add_exact a b)"



text \<open>\<open>d <= 0\<close> for a finite decimal.\<close>

definition dec_le_zero :: "decimal \<Rightarrow> bool" where
  "dec_le_zero d = (dint d = 0 \<or> dsign d)"


text \<open>The number a finite decimal stands for.\<close>

definition dec_val :: "decimal \<Rightarrow> rat" where
  "dec_val d = (if dsign d then - 1 else 1) * of_nat (dint d) * 10 powi dexp d"

text \<open>
  \<open>Decimal.__str__\<close>: plain notation when the exponent is at most 0 and more than
  \<open>-6\<close> digits stand left of the point, scientific notation otherwise.
\<close>

definition show_int :: "int \<Rightarrow> string" where
  "show_int i = (if i < 0 then ''-'' @ digits10 (nat (- i)) else digits10 (nat i))"

definition show_exp :: "int \<Rightarrow> string" where
  "show_exp i = (if i < 0 then show_int i else ''+'' @ show_int i)"

definition dec_str :: "decimal \<Rightarrow> string" where
  "dec_str d =
     (let ds = digits10 (dint d);
          leftdigits = dexp d + int (length ds);
          dotplace = (if dexp d \<le> 0 \<and> leftdigits > - 6 then leftdigits else 1);
          intpart = (if dotplace \<le> 0 then ''0''
                     else if dotplace \<ge> int (length ds)
                          then ds @ replicate (nat (dotplace - int (length ds))) CHR ''0''
                          else take (nat dotplace) ds);
          fracpart = (if dotplace \<le> 0 then ''.'' @ replicate (nat (- dotplace)) CHR ''0'' @ ds
                      else if dotplace \<ge> int (length ds) then ''''
                           else ''.'' @ drop (nat dotplace) ds);
          ex = (if leftdigits = dotplace then '''' else ''E'' @ show_exp (leftdigits - dotplace))
      in (if dsign d then ''-'' else '''') @ intpart @ fracpart @ ex)"

section \<open>The shopping cart of \<open>update_example.py\<close>\<close>

record cart_item =
  sku :: string
  name :: string
  quantity :: int
  price :: decimal

text \<open>The fields of a \<open>ShoppingCartWorkflow\<close> instance that hold data.\<close>

record cart =
  items :: "cart_item list"
  total :: decimal

text \<open>
  The exceptions the examples raise and catch. \<open>ApplicationError\<close> carries its message,
  its \<open>type\<close> and the \<open>non_retryable\<close> flag; \<open>ActivityError\<close> is what
  \<open>workflow.execute_activity\<close> raises in the workflow, wrapping the cause.
\<close>

datatype py_error =
    ValueError string
  | ApplicationError string string bool
  | ActivityError py_error
  | NonDeterminismError

text \<open>\<open>__init__\<close>: no items, total \<open>Decimal("0.00")\<close>.\<close>

definition init_cart :: cart where
  "init_cart = \<lparr>items = [], total = Decimal False 0 (- 2)\<rparr>"

definition get_total :: "cart \<Rightarrow> string" where
  "get_total s = dec_str (total s)"

definition get_item_count :: "cart \<Rightarrow> nat" where
  "get_item_count s = length (items s)"

text \<open>\<open>needle in haystack\<close> on strings.\<close>

fun is_substring :: "string \<Rightarrow> string \<Rightarrow> bool" where
  "is_substring needle [] = (needle = [])"
| "is_substring needle (c # cs) = (take (length needle) (c # cs) = needle \<or> is_substring needle cs)"

text \<open>The activity \<open>check_inventory\<close>: every sku without \<open>OUT-OF-STOCK\<close> in it is available.\<close>

definition check_inventory :: "cart_item \<Rightarrow> py_error + bool" where
  "check_inventory item = Inr (\<not> is_substring ''OUT-OF-STOCK'' (sku item))"

text \<open>
  \<open>validate_add_item\<close>: the checks in the order of the source; the first that fails
  raises. \<open>None\<close> is the validator returning normally.
\<close>

definition validate_add_item :: "cart \<Rightarrow> cart_item \<Rightarrow> py_error option" where
  "validate_add_item s item =
     (if sku item = [] then Some (ValueError ''Item SKU is required'')
      else if quantity item \<le> 0 then Some (ValueError ''Quantity must be positive'')
      else if quantity item > 99 then Some (ValueError ''Maximum quantity per item is 99'')
      else if dec_le_zero (price item) then Some (ValueError ''Price must be positive'')
      else if length (items s) \<ge> 50 then Some (ValueError ''Cart is full (maximum 50 items)'')
      else if list_ex (\<lambda>i. sku i = sku item) (items s)
           then Some (ValueError (''Item '' @ sku item @ '' already in cart''))
      else None)"

record add_result =
  res_items :: nat
  res_total :: string
  item_added :: string


text \<open>
  The body of \<open>add_item\<close>. \<open>exec\<close> is \<open>workflow.execute_activity(check_inventory, item)\<close>:
  it returns the activity's result or raises. The body returns what it returns or raises,
  and the instance as it leaves it.
\<close>

definition add_item :: "(cart_item \<Rightarrow> py_error + bool) \<Rightarrow> cart \<Rightarrow> cart_item
    \<Rightarrow> (py_error + add_result) \<times> cart" where
  "add_item exec s item =
     (case exec item of
        Inl e \<Rightarrow> (Inl e, s)
      | Inr available \<Rightarrow>
          if \<not> available then (Inl (ValueError (''Item '' @ sku item @ '' is out of stock'')), s)
          else
            let s1 = s\<lparr>items := items s @ [item]\<rparr>;
                item_total = dec_mul (price item) (dec_of_int (quantity item));
                s2 = s1\<lparr>total := dec_add (total s1) item_total\<rparr>
            in (Inr \<lparr>res_items = length (items s2), res_total = dec_str (total s2),
                     item_added = name item\<rparr>, s2))"






section \<open>Updates as the Handler Router runs them\<close>

datatype event =
    UpdateAccepted string
  | UpdateCompleted string
  | ActivityScheduled string
  | ActivityCompleted string
  | ActivityFailed string

datatype 'a update_outcome = Rejected py_error | Failed py_error | Completed 'a

text \<open>One workflow execution: the instance and its event log.\<close>

record execution =
  state :: cart
  history :: "event list"

definition start_cart :: execution where
  "start_cart = \<lparr>state = init_cart, history = []\<rparr>"

text \<open>
  Modelled from the spec: the dispatch of an update by the Handler Router, which is the
  SDK's and not in the repository. The validator registered with \<open>@add_item.validator\<close>
  runs first, against the current state; when it raises, the caller gets the rejection
  and nothing else happens. Otherwise the update is accepted into the log, the handler
  body runs (its activity call is logged), and its return is logged as the completion.
  The validator and the handler body are the source's.
\<close>

definition update_add_item :: "(cart_item \<Rightarrow> py_error + bool) \<Rightarrow> execution \<Rightarrow> cart_item
    \<Rightarrow> add_result update_outcome \<times> execution" where
  "update_add_item exec ex item =
     (case validate_add_item (state ex) item of
        Some e \<Rightarrow> (Rejected e, ex)
      | None \<Rightarrow>
          let (r, s') = add_item exec (state ex) item;
              activity_events =
                [ActivityScheduled ''check_inventory'',
                 (case exec item of Inl _ \<Rightarrow> ActivityFailed ''check_inventory''
                  | Inr _ \<Rightarrow> ActivityCompleted ''check_inventory'')]
          in (case r of
                Inl e \<Rightarrow>
                  (Failed e, \<lparr>state = s',
                     history = history ex @ UpdateAccepted ''add_item'' # activity_events\<rparr>)
              | Inr v \<Rightarrow>
                  (Completed v, \<lparr>state = s',
                     history = history ex @ UpdateAccepted ''add_item'' # activity_events
                       @ [UpdateCompleted ''add_item'']\<rparr>)))"


section \<open>Sequences of updates and the sum of the cart\<close>










section \<open>The trip booking saga of \<open>saga_pattern_example.py\<close>\<close>

record booking_request =
  user_id :: string
  car_id :: string
  hotel_id :: string
  flight_id :: string

record booking_result =
  success :: bool
  car_booking :: "string option"
  hotel_booking :: "string option"
  flight_booking :: "string option"
  error :: "string option"

datatype activity =
    book_car | book_hotel | book_flight
  | undo_book_car | undo_book_hotel | undo_book_flight

text \<open>
  What a run does, in order: the activity calls it makes through
  \<open>workflow.execute_activity\<close>, and the two log lines of the compensation loop
  (\<open>Compensation successful\<close>, \<open>Compensation failed\<close>). The other log lines say
  nothing a call does not say and are left out.
\<close>

datatype saga_event =
    Call activity string
  | CompensationSuccessful activity
  | CompensationFailed activity py_error

text \<open>
  The loop over \<open>reversed(compensations)\<close>, given the list already reversed. Each
  compensation is called inside its own \<open>try\<close>: what it raises is logged and the loop
  goes on. \<open>cexec\<close> is \<open>workflow.execute_activity\<close> on a compensation activity.
\<close>

fun run_compensations :: "(activity \<Rightarrow> string \<Rightarrow> py_error + unit)
    \<Rightarrow> (activity \<times> string) list \<Rightarrow> saga_event list" where
  "run_compensations cexec [] = []"
| "run_compensations cexec ((compensation_activity, booking_id) # rest) =
     Call compensation_activity booking_id
     # (case cexec compensation_activity booking_id of
          Inr _ \<Rightarrow> CompensationSuccessful compensation_activity
        | Inl comp_error \<Rightarrow> CompensationFailed compensation_activity comp_error)
     # run_compensations cexec rest"

text \<open>
  The \<open>except Exception as e\<close> block: the error text goes into the result, the
  compensations run last in, first out. \<open>str_of\<close> is Python's \<open>str\<close> on the exception.
\<close>

definition on_failure :: "(py_error \<Rightarrow> string) \<Rightarrow> (activity \<Rightarrow> string \<Rightarrow> py_error + unit)
    \<Rightarrow> booking_result \<Rightarrow> (activity \<times> string) list \<Rightarrow> py_error
    \<Rightarrow> booking_result \<times> saga_event list" where
  "on_failure str_of cexec result compensations e =
     (result\<lparr>error := Some (str_of e)\<rparr>, run_compensations cexec (rev compensations))"

text \<open>
  \<open>TripBookingSaga.run\<close>. \<open>fexec\<close> is \<open>workflow.execute_activity\<close> on a booking
  activity (with its retry policy): the booking id, or the error it raises in the end.
  The result of the function is the \<open>BookingResult\<close> returned and the events in order.
\<close>

definition trip_booking_saga :: "(py_error \<Rightarrow> string) \<Rightarrow> (activity \<Rightarrow> string \<Rightarrow> py_error + string)
    \<Rightarrow> (activity \<Rightarrow> string \<Rightarrow> py_error + unit) \<Rightarrow> booking_request
    \<Rightarrow> booking_result \<times> saga_event list" where
  "trip_booking_saga str_of fexec cexec request =
     (let compensations = [];
          result = \<lparr>success = False, car_booking = None, hotel_booking = None,
                    flight_booking = None, error = None\<rparr>;
          t1 = [Call book_car (car_id request)]
      in case fexec book_car (car_id request) of
           Inl e \<Rightarrow>
             (let (r, t) = on_failure str_of cexec result compensations e in (r, t1 @ t))
         | Inr car \<Rightarrow>
             let result = result\<lparr>car_booking := Some car\<rparr>;
                 compensations = compensations @ [(undo_book_car, car)];
                 t2 = t1 @ [Call book_hotel (hotel_id request)]
             in case fexec book_hotel (hotel_id request) of
                  Inl e \<Rightarrow>
                    (let (r, t) = on_failure str_of cexec result compensations e in (r, t2 @ t))
                | Inr hotel \<Rightarrow>
                    let result = result\<lparr>hotel_booking := Some hotel\<rparr>;
                        compensations = compensations @ [(undo_book_hotel, hotel)];
                        t3 = t2 @ [Call book_flight (flight_id request)]
                    in case fexec book_flight (flight_id request) of
                         Inl e \<Rightarrow>
                           (let (r, t) = on_failure str_of cexec result compensations e
                            in (r, t3 @ t))
                       | Inr flight \<Rightarrow>
                           let result = result\<lparr>flight_booking := Some flight\<rparr>;
                               compensations = compensations @ [(undo_book_flight, flight)];
                               result = result\<lparr>success := True\<rparr>
                           in (result, t3))"

text \<open>The compensation calls of a run, in the order they were made.\<close>

fun compensation_calls :: "saga_event list \<Rightarrow> (activity \<times> string) list" where
  "compensation_calls [] = []"
| "compensation_calls (Call a b # t) =
     (if a \<in> {undo_book_car, undo_book_hotel, undo_book_flight}
      then (a, b) # compensation_calls t else compensation_calls t)"
| "compensation_calls (_ # t) = compensation_calls t"

text \<open>The log line a compensation leaves, by what its call returned.\<close>

definition compensation_log :: "(activity \<Rightarrow> string \<Rightarrow> py_error + unit) \<Rightarrow> activity \<Rightarrow> string
    \<Rightarrow> saga_event" where
  "compensation_log cexec a b =
     (case cexec a b of Inr _ \<Rightarrow> CompensationSuccessful a | Inl e \<Rightarrow> CompensationFailed a e)"

text \<open>The booking activities as the source has them.\<close>

definition book_car_activity :: "string \<Rightarrow> py_error + string" where
  "book_car_activity cid =
     (if is_substring ''invalid'' cid then Inl (ValueError (''Invalid car ID: '' @ cid))
      else Inr (''car_booking_'' @ cid))"

definition book_hotel_activity :: "string \<Rightarrow> py_error + string" where
  "book_hotel_activity hid =
     (if is_substring ''invalid'' hid then Inl (ValueError (''Invalid hotel ID: '' @ hid))
      else Inr (''hotel_booking_'' @ hid))"

definition book_flight_activity :: "string \<Rightarrow> py_error + string" where
  "book_flight_activity fid =
     (if is_substring ''invalid'' fid then Inl (ValueError (''Invalid flight ID: '' @ fid))
      else Inr (''flight_booking_'' @ fid))"

text \<open>
  An executor over these activities: an id that is refused is refused at every attempt,
  so the retries end in an \<open>ActivityError\<close> around the \<open>ValueError\<close>.
\<close>

fun demo_fexec :: "activity \<Rightarrow> string \<Rightarrow> py_error + string" where
  "demo_fexec book_car x = map_sum ActivityError id (book_car_activity x)"
| "demo_fexec book_hotel x = map_sum ActivityError id (book_hotel_activity x)"
| "demo_fexec book_flight x = map_sum ActivityError id (book_flight_activity x)"
| "demo_fexec _ x = Inl (ValueError ''not a booking activity'')"

text \<open>An executor in which cancelling the hotel fails and every other compensation works.\<close>

definition hotel_desk_closed :: "activity \<Rightarrow> string \<Rightarrow> py_error + unit" where
  "hotel_desk_closed a b =
     (if a = undo_book_hotel then Inl (ActivityError (ValueError ''hotel desk closed''))
      else Inr ())"

text \<open>A rendering of exceptions as text, for the examples: the message of the innermost cause.\<close>

fun error_message :: "py_error \<Rightarrow> string" where
  "error_message (ValueError m) = m"
| "error_message (ApplicationError m t n) = m"
| "error_message (ActivityError cause) = error_message cause"
| "error_message NonDeterminismError = ''nondeterminism''"

section \<open>Retry policies of \<open>retry_policy_example.py\<close>\<close>

text \<open>
  \<open>RetryPolicy\<close> as the examples fill it in. Intervals are seconds; \<open>maximum_attempts = 0\<close>
  is unlimited; \<open>maximum_interval = None\<close> is a policy that names no cap.
\<close>

record retry_policy =
  initial_interval :: rat
  backoff_coefficient :: rat
  maximum_interval :: "rat option"
  maximum_attempts :: nat
  non_retryable_error_types :: "string list"

text \<open>
  A policy with no argument given: one second, doubling, no cap, unlimited attempts, as
  \<open>RetryPolicy()\<close> of the SDK has it. The policies of the workflow override fields.
\<close>

definition RetryPolicy :: retry_policy where
  "RetryPolicy = \<lparr>initial_interval = 1, backoff_coefficient = 2, maximum_interval = None,
     maximum_attempts = 0, non_retryable_error_types = []\<rparr>"

text \<open>The kind of a failure and its explicit flag.\<close>

fun error_kind :: "py_error \<Rightarrow> string" where
  "error_kind (ValueError m) = ''ValueError''"
| "error_kind (ApplicationError m t n) = t"
| "error_kind (ActivityError cause) = ''ActivityError''"
| "error_kind NonDeterminismError = ''NonDeterminismError''"

fun non_retryable_flag :: "py_error \<Rightarrow> bool" where
  "non_retryable_flag (ApplicationError m t n) = n"
| "non_retryable_flag _ = False"

text \<open>
  Modelled from the spec: the Activity Invoker (section 4.5), which is the orchestration
  service's and not in the repository. The delay after failed attempt \<open>n\<close> is
  \<open>min(initial_interval * backoff_coefficient^(n-1), maximum_interval)\<close>. Retries stop when
  the attempt count reaches \<open>maximum_attempts\<close> (if nonzero), when the failure's kind is
  in the non-retryable set, or when the failure carries the non-retryable flag; the
  final cause then reaches the workflow wrapped in an \<open>ActivityError\<close>. An activity is
  given by what its attempt \<open>n\<close> does. With unlimited attempts the loop need not end,
  so the result is an option.
\<close>

definition retry_delay :: "retry_policy \<Rightarrow> nat \<Rightarrow> rat" where
  "retry_delay p n =
     (let d = initial_interval p * backoff_coefficient p ^ (n - 1)
      in case maximum_interval p of None \<Rightarrow> d | Some m \<Rightarrow> min d m)"

definition retries_stop :: "retry_policy \<Rightarrow> nat \<Rightarrow> py_error \<Rightarrow> bool" where
  "retries_stop p n e =
     ((maximum_attempts p \<noteq> 0 \<and> n \<ge> maximum_attempts p)
      \<or> error_kind e \<in> set (non_retryable_error_types p)
      \<or> non_retryable_flag e)"

record 'a invocation =
  outcome :: "py_error + 'a"
  attempts :: nat
  delays :: "rat list"

partial_function (option) invoke_from :: "retry_policy \<Rightarrow> (nat \<Rightarrow> py_error + 'a) \<Rightarrow> nat
    \<Rightarrow> rat list \<Rightarrow> 'a invocation option" where
  "invoke_from p act n ds =
     (case act n of
        Inr v \<Rightarrow> Some \<lparr>outcome = Inr v, attempts = n, delays = ds\<rparr>
      | Inl e \<Rightarrow>
          if retries_stop p n e
          then Some \<lparr>outcome = Inl (ActivityError e), attempts = n, delays = ds\<rparr>
          else invoke_from p act (Suc n) (ds @ [retry_delay p n]))"

definition invoke :: "retry_policy \<Rightarrow> (nat \<Rightarrow> py_error + 'a) \<Rightarrow> 'a invocation option" where
  "invoke p act = invoke_from p act 1 []"

text \<open>
  The activities of the source. \<open>flaky_operation\<close> reads its attempt number and draws
  a random number; \<open>draw\<close> is that number.
\<close>

definition flaky_operation :: "rat \<Rightarrow> rat \<Rightarrow> nat \<Rightarrow> py_error + string" where
  "flaky_operation fail_probability draw attempt =
     (if draw < fail_probability
      then Inl (ApplicationError (''Random failure on attempt '' @ digits10 attempt)
                  ''TransientError'' False)
      else Inr (''Success on attempt '' @ digits10 attempt))"

definition non_retryable_operation :: "py_error + string" where
  "non_retryable_operation =
     Inl (ApplicationError ''This error should not be retried'' ''ValidationError'' True)"

text \<open>
  The four tests of \<open>RetryPolicyDemoWorkflow.run\<close>: each invokes an activity under
  its policy and turns the return or the caught \<open>ActivityError\<close> into the entry of
  \<open>results\<close>. \<open>draws n\<close> is the random number attempt \<open>n\<close> draws.
\<close>

definition default_retry :: "(nat \<Rightarrow> rat) \<Rightarrow> string option" where
  "default_retry draws =
     map_option (\<lambda>i. case outcome i of
         Inr result \<Rightarrow> ''Success: '' @ result
       | Inl e \<Rightarrow> ''Failed: '' @ error_message e)
       (invoke RetryPolicy (\<lambda>n. flaky_operation (3 / 10) (draws n) n))"

definition limited_retry_policy :: retry_policy where
  "limited_retry_policy = RetryPolicy\<lparr>maximum_attempts := 3\<rparr>"

definition limited_retry :: "(nat \<Rightarrow> rat) \<Rightarrow> string option" where
  "limited_retry draws =
     map_option (\<lambda>i. case outcome i of
         Inr result \<Rightarrow> ''Success: '' @ result
       | Inl e \<Rightarrow> ''Failed after 3 attempts'')
       (invoke limited_retry_policy (\<lambda>n. flaky_operation (9 / 10) (draws n) n))"

definition custom_backoff_policy :: retry_policy where
  "custom_backoff_policy = RetryPolicy\<lparr>initial_interval := 1 / 10, backoff_coefficient := 3 / 2,
     maximum_interval := Some 2, maximum_attempts := 5\<rparr>"

definition custom_backoff :: "(nat \<Rightarrow> rat) \<Rightarrow> string option" where
  "custom_backoff draws =
     map_option (\<lambda>i. case outcome i of
         Inr result \<Rightarrow> ''Success: '' @ result
       | Inl e \<Rightarrow> ''Failed: '' @ error_message e)
       (invoke custom_backoff_policy (\<lambda>n. flaky_operation (1 / 2) (draws n) n))"

definition non_retryable_policy :: retry_policy where
  "non_retryable_policy = RetryPolicy\<lparr>maximum_attempts := 5\<rparr>"

definition non_retryable :: "string option" where
  "non_retryable =
     map_option (\<lambda>i. case outcome i of
         Inr result \<Rightarrow> ''Success: '' @ result
       | Inl e \<Rightarrow> ''Failed immediately (non-retryable)'')
       (invoke non_retryable_policy (\<lambda>n. non_retryable_operation))"

text \<open>\<open>run\<close>: the dictionary of the four entries, when all four invocations end.\<close>

definition retry_policy_demo_run :: "(nat \<Rightarrow> rat) \<Rightarrow> (nat \<Rightarrow> rat) \<Rightarrow> (nat \<Rightarrow> rat)
    \<Rightarrow> (string \<times> string) list option" where
  "retry_policy_demo_run draws1 draws2 draws3 =
     (case default_retry draws1 of None \<Rightarrow> None | Some r1 \<Rightarrow>
      case limited_retry draws2 of None \<Rightarrow> None | Some r2 \<Rightarrow>
      case custom_backoff draws3 of None \<Rightarrow> None | Some r3 \<Rightarrow>
      case non_retryable of None \<Rightarrow> None | Some r4 \<Rightarrow>
        Some [(''default_retry'', r1), (''limited_retry'', r2), (''custom_backoff'', r3),
              (''non_retryable'', r4)])"

section \<open>The cart: rejected updates and the scenario\<close>

lemma dec_le_zero_val: "dec_le_zero d \<longleftrightarrow> dec_val d \<le> 0"
proof -
  have p: "(0::rat) < 10 powi dexp d" by simp
  show ?thesis
  proof (cases "dsign d")
    case True
    have "0 \<le> of_nat (dint d) * (10::rat) powi dexp d" using p by simp
    then show ?thesis using True by (simp add: dec_le_zero_def dec_val_def)
  next
    case False
    have np: "\<not> (10::rat) powi dexp d \<le> 0" using p by (simp add: not_le)
    show ?thesis using False np
      by (simp add: dec_le_zero_def dec_val_def mult_le_0_iff)
  qed
qed

lemma validate_add_item_rejects:
  "validate_add_item s item \<noteq> None \<longleftrightarrow>
     (sku item = [] \<or> quantity item \<le> 0 \<or> quantity item > 99 \<or> dec_val (price item) \<le> 0
      \<or> length (items s) \<ge> 50 \<or> (\<exists>i \<in> set (items s). sku i = sku item))"
  by (auto simp: validate_add_item_def dec_le_zero_val list_ex_iff)

text \<open>
  C4 (validator purity). The validator rejects exactly for an empty sku, a quantity
  \<open>\<le> 0\<close> or \<open>> 99\<close>, a price \<open>\<le> 0\<close>, a cart of 50 items or more, or a sku already in
  the cart. Whenever it rejects, the update answers with the rejection and the execution
  is what it was: same items, same total, same answers of \<open>get_total\<close> and
  \<open>get_item_count\<close>, and no event added to the log.
\<close>

theorem rejected_add_item_changes_nothing:
  "(validate_add_item (state ex) item \<noteq> None \<longleftrightarrow>
      (sku item = [] \<or> quantity item \<le> 0 \<or> quantity item > 99 \<or> dec_val (price item) \<le> 0
       \<or> length (items (state ex)) \<ge> 50 \<or> (\<exists>i \<in> set (items (state ex)). sku i = sku item)))
   \<and> (validate_add_item (state ex) item = Some e \<longrightarrow>
        fst (update_add_item exec ex item) = Rejected e
      \<and> snd (update_add_item exec ex item) = ex
      \<and> items (state (snd (update_add_item exec ex item))) = items (state ex)
      \<and> total (state (snd (update_add_item exec ex item))) = total (state ex)
      \<and> get_total (state (snd (update_add_item exec ex item))) = get_total (state ex)
      \<and> get_item_count (state (snd (update_add_item exec ex item))) = get_item_count (state ex)
      \<and> history (snd (update_add_item exec ex item)) = history ex)"
proof -
  have "validate_add_item (state ex) item = Some e \<Longrightarrow> update_add_item exec ex item = (Rejected e, ex)"
    by (simp add: update_add_item_def)
  then show ?thesis
    using validate_add_item_rejects [of "state ex" item] by auto
qed

theorem rejected_add_item_changes_nothing_witness:
  "validate_add_item (state start_cart)
     \<lparr>sku = ''A'', name = ''Widget'', quantity = 0, price = Decimal False 1000 (- 2)\<rparr>
     = Some (ValueError ''Quantity must be positive'')
   \<and> fst (update_add_item check_inventory start_cart
     \<lparr>sku = ''A'', name = ''Widget'', quantity = 0, price = Decimal False 1000 (- 2)\<rparr>)
     = Rejected (ValueError ''Quantity must be positive'')
   \<and> snd (update_add_item check_inventory start_cart
     \<lparr>sku = ''A'', name = ''Widget'', quantity = 0, price = Decimal False 1000 (- 2)\<rparr>)
     = start_cart"
proof -
  have v: "validate_add_item (state start_cart)
     \<lparr>sku = ''A'', name = ''Widget'', quantity = 0, price = Decimal False 1000 (- 2)\<rparr>
     = Some (ValueError ''Quantity must be positive'')"
    by (simp add: validate_add_item_def)
  show ?thesis
    using v rejected_add_item_changes_nothing [of start_cart
      "\<lparr>sku = ''A'', name = ''Widget'', quantity = 0, price = Decimal False 1000 (- 2)\<rparr>"
      "ValueError ''Quantity must be positive''" check_inventory]
    by simp
qed

lemma first_item_total:
  "dec_add (Decimal False 0 (- 2)) (dec_mul (Decimal False 1000 (- 2)) (dec_of_int 1))
     = Decimal False 1000 (- 2)"
  by (simp add: dec_add_def add_exact_def dec_mul_def mul_exact_def dec_of_int_def
      dec_fix_def scaled_def digits10.simps prec_def Let_def)

lemma ten_str: "dec_str (Decimal False 1000 (- 2)) = ''10.00''"
  by (simp add: dec_str_def digits10.simps digit_char_def Let_def)

lemma first_add_accepted:
  "update_add_item check_inventory start_cart
     \<lparr>sku = ''A'', name = nm, quantity = 1, price = Decimal False 1000 (- 2)\<rparr>
   = (Completed \<lparr>res_items = 1, res_total = ''10.00'', item_added = nm\<rparr>,
      \<lparr>state = \<lparr>items = [\<lparr>sku = ''A'', name = nm, quantity = 1,
                 price = Decimal False 1000 (- 2)\<rparr>],
               total = Decimal False 1000 (- 2)\<rparr>,
       history = [UpdateAccepted ''add_item'', ActivityScheduled ''check_inventory'',
                  ActivityCompleted ''check_inventory'', UpdateCompleted ''add_item'']\<rparr>)"
  by (simp add: update_add_item_def validate_add_item_def add_item_def check_inventory_def
      start_cart_def init_cart_def dec_le_zero_def first_item_total ten_str)

text \<open>
  C5 (cart scenario). On a fresh cart, \<open>add_item\<close> of sku \<open>A\<close>, quantity 1, price
  \<open>10.00\<close> (with \<open>check_inventory\<close> as the source has it) completes and \<open>get_total\<close>
  answers \<open>"10.00"\<close>. A second \<open>add_item\<close> of the same item is rejected by the
  validator for the duplicate sku, any other item of sku \<open>A\<close> is rejected too, and
  after the rejection \<open>get_total\<close> still answers \<open>"10.00"\<close>.
\<close>

theorem cart_scenario:
  "get_total (state start_cart) = ''0.00''
   \<and> (let a = \<lparr>sku = ''A'', name = nm, quantity = 1, price = Decimal False 1000 (- 2)\<rparr>;
           ex1 = snd (update_add_item check_inventory start_cart a);
           r2 = update_add_item check_inventory ex1 a;
           r3 = update_add_item check_inventory ex1 (b\<lparr>sku := ''A''\<rparr>)
       in fst (update_add_item check_inventory start_cart a)
            = Completed \<lparr>res_items = 1, res_total = ''10.00'', item_added = nm\<rparr>
          \<and> get_total (state ex1) = ''10.00''
          \<and> fst r2 = Rejected (ValueError ''Item A already in cart'')
          \<and> snd r2 = ex1
          \<and> get_total (state (snd r2)) = ''10.00''
          \<and> (\<exists>e. fst r3 = Rejected e)
          \<and> get_total (state (snd r3)) = ''10.00'')"
proof -
  let ?a = "\<lparr>sku = ''A'', name = nm, quantity = 1, price = Decimal False 1000 (- 2)\<rparr>"
  let ?s1 = "\<lparr>items = [?a], total = Decimal False 1000 (- 2)\<rparr>"
  let ?ex1 = "snd (update_add_item check_inventory start_cart ?a)"
  have z: "get_total (state start_cart) = ''0.00''"
    by (simp add: get_total_def start_cart_def init_cart_def dec_str_def digits10.simps
        digit_char_def Let_def)
  have s1: "state ?ex1 = ?s1" by (simp add: first_add_accepted)
  have t1: "get_total (state ?ex1) = ''10.00''"
    by (simp add: s1 get_total_def ten_str)
  have v2: "validate_add_item (state ?ex1) ?a = Some (ValueError ''Item A already in cart'')"
    by (simp add: s1 validate_add_item_def dec_le_zero_def)
  have r2: "update_add_item check_inventory ?ex1 ?a
      = (Rejected (ValueError ''Item A already in cart''), ?ex1)"
    using v2 by (simp add: update_add_item_def)
  have v3: "validate_add_item (state ?ex1) (b\<lparr>sku := ''A''\<rparr>) \<noteq> None"
    by (simp add: s1 validate_add_item_def)
  then obtain e where "validate_add_item (state ?ex1) (b\<lparr>sku := ''A''\<rparr>) = Some e"
    by blast
  then have r3: "update_add_item check_inventory ?ex1 (b\<lparr>sku := ''A''\<rparr>) = (Rejected e, ?ex1)"
    by (simp add: update_add_item_def)
  show ?thesis
    unfolding Let_def using z t1 r2 r3 by (simp add: first_add_accepted)
qed

section \<open>The cart total and the sum of the items\<close>






















subsection \<open>Concrete runs\<close>



















section \<open>The saga compensates last in, first out\<close>

lemma compensation_calls_forward [simp]:
  "compensation_calls (Call book_car x # t) = compensation_calls t"
  "compensation_calls (Call book_hotel x # t) = compensation_calls t"
  "compensation_calls (Call book_flight x # t) = compensation_calls t"
  by simp_all

lemma compensation_calls_log [simp]:
  "compensation_calls (compensation_log cexec a b # t) = compensation_calls t"
  by (cases "cexec a b") (simp_all add: compensation_log_def)

lemma run_compensations_log:
  "run_compensations cexec cs
     = concat (map (\<lambda>(a, b). [Call a b, compensation_log cexec a b]) cs)"
  by (induction cs) (auto simp: compensation_log_def)

text \<open>
  C3 (saga compensation order). Whatever the compensations return or raise: when
  \<open>book_car\<close> fails nothing is compensated; when \<open>book_car\<close> returns \<open>c\<close> and
  \<open>book_hotel\<close> fails, \<open>undo_book_car\<close> is called with \<open>c\<close>; when \<open>book_car\<close>
  returns \<open>c\<close>, \<open>book_hotel\<close> returns \<open>h\<close> and \<open>book_flight\<close> fails,
  \<open>undo_book_hotel\<close> is called with \<open>h\<close> and then \<open>undo_book_car\<close> with \<open>c\<close>.
  Each compensation call is followed by its log line, successful or failed, and the next
  compensation is called all the same. The result holds the bookings made, the error
  text, and \<open>success = False\<close>.
\<close>

theorem saga_compensation_order:
  "(fexec book_car (car_id rq) = Inl e \<longrightarrow>
      trip_booking_saga str_of fexec cexec rq
        = (\<lparr>success = False, car_booking = None, hotel_booking = None, flight_booking = None,
            error = Some (str_of e)\<rparr>,
           [Call book_car (car_id rq)])
      \<and> compensation_calls (snd (trip_booking_saga str_of fexec cexec rq)) = [])
   \<and> (fexec book_car (car_id rq) = Inr c \<and> fexec book_hotel (hotel_id rq) = Inl e \<longrightarrow>
      trip_booking_saga str_of fexec cexec rq
        = (\<lparr>success = False, car_booking = Some c, hotel_booking = None, flight_booking = None,
            error = Some (str_of e)\<rparr>,
           [Call book_car (car_id rq), Call book_hotel (hotel_id rq),
            Call undo_book_car c, compensation_log cexec undo_book_car c])
      \<and> compensation_calls (snd (trip_booking_saga str_of fexec cexec rq))
        = [(undo_book_car, c)])
   \<and> (fexec book_car (car_id rq) = Inr c \<and> fexec book_hotel (hotel_id rq) = Inr h
        \<and> fexec book_flight (flight_id rq) = Inl e \<longrightarrow>
      trip_booking_saga str_of fexec cexec rq
        = (\<lparr>success = False, car_booking = Some c, hotel_booking = Some h,
            flight_booking = None, error = Some (str_of e)\<rparr>,
           [Call book_car (car_id rq), Call book_hotel (hotel_id rq),
            Call book_flight (flight_id rq),
            Call undo_book_hotel h, compensation_log cexec undo_book_hotel h,
            Call undo_book_car c, compensation_log cexec undo_book_car c])
      \<and> compensation_calls (snd (trip_booking_saga str_of fexec cexec rq))
        = [(undo_book_hotel, h), (undo_book_car, c)])"
proof (intro conjI impI)
  assume "fexec book_car (car_id rq) = Inl e"
  then show "trip_booking_saga str_of fexec cexec rq
        = (\<lparr>success = False, car_booking = None, hotel_booking = None, flight_booking = None,
            error = Some (str_of e)\<rparr>,
           [Call book_car (car_id rq)])"
    by (simp add: trip_booking_saga_def on_failure_def)
  then show "compensation_calls (snd (trip_booking_saga str_of fexec cexec rq)) = []"
    by simp
next
  assume "fexec book_car (car_id rq) = Inr c \<and> fexec book_hotel (hotel_id rq) = Inl e"
  then show r: "trip_booking_saga str_of fexec cexec rq
        = (\<lparr>success = False, car_booking = Some c, hotel_booking = None, flight_booking = None,
            error = Some (str_of e)\<rparr>,
           [Call book_car (car_id rq), Call book_hotel (hotel_id rq),
            Call undo_book_car c, compensation_log cexec undo_book_car c])"
    by (simp add: trip_booking_saga_def on_failure_def run_compensations_log)
  show "compensation_calls (snd (trip_booking_saga str_of fexec cexec rq))
        = [(undo_book_car, c)]"
    by (simp add: r)
next
  assume "fexec book_car (car_id rq) = Inr c \<and> fexec book_hotel (hotel_id rq) = Inr h
        \<and> fexec book_flight (flight_id rq) = Inl e"
  then show r: "trip_booking_saga str_of fexec cexec rq
        = (\<lparr>success = False, car_booking = Some c, hotel_booking = Some h,
            flight_booking = None, error = Some (str_of e)\<rparr>,
           [Call book_car (car_id rq), Call book_hotel (hotel_id rq),
            Call book_flight (flight_id rq),
            Call undo_book_hotel h, compensation_log cexec undo_book_hotel h,
            Call undo_book_car c, compensation_log cexec undo_book_car c])"
    by (simp add: trip_booking_saga_def on_failure_def run_compensations_log)
  show "compensation_calls (snd (trip_booking_saga str_of fexec cexec rq))
        = [(undo_book_hotel, h), (undo_book_car, c)]"
    by (simp add: r)
qed

lemma demo_bookings:
  "demo_fexec book_car ''car-002'' = Inr ''car_booking_car-002''"
  "demo_fexec book_hotel ''hotel-002'' = Inr ''hotel_booking_hotel-002''"
  "demo_fexec book_flight ''invalid-flight''
     = Inl (ActivityError (ValueError ''Invalid flight ID: invalid-flight''))"
  "demo_fexec book_hotel ''invalid-hotel''
     = Inl (ActivityError (ValueError ''Invalid hotel ID: invalid-hotel''))"
  "demo_fexec book_car ''invalid-car''
     = Inl (ActivityError (ValueError ''Invalid car ID: invalid-car''))"
  by (simp_all add: book_car_activity_def book_hotel_activity_def book_flight_activity_def)

theorem saga_compensation_order_witness:
  "snd (trip_booking_saga error_message demo_fexec hotel_desk_closed
     \<lparr>user_id = ''user-456'', car_id = ''car-002'', hotel_id = ''hotel-002'',
      flight_id = ''invalid-flight''\<rparr>)
   = [Call book_car ''car-002'', Call book_hotel ''hotel-002'',
      Call book_flight ''invalid-flight'',
      Call undo_book_hotel ''hotel_booking_hotel-002'',
      CompensationFailed undo_book_hotel (ActivityError (ValueError ''hotel desk closed'')),
      Call undo_book_car ''car_booking_car-002'',
      CompensationSuccessful undo_book_car]
   \<and> compensation_calls (snd (trip_booking_saga error_message demo_fexec hotel_desk_closed
     \<lparr>user_id = ''user-456'', car_id = ''car-002'', hotel_id = ''invalid-hotel'',
      flight_id = ''flight-002''\<rparr>))
   = [(undo_book_car, ''car_booking_car-002'')]
   \<and> compensation_calls (snd (trip_booking_saga error_message demo_fexec hotel_desk_closed
     \<lparr>user_id = ''user-456'', car_id = ''invalid-car'', hotel_id = ''hotel-002'',
      flight_id = ''flight-002''\<rparr>))
   = []"
proof -
  let ?rq1 = "\<lparr>user_id = ''user-456'', car_id = ''car-002'', hotel_id = ''hotel-002'',
      flight_id = ''invalid-flight''\<rparr>"
  let ?rq2 = "\<lparr>user_id = ''user-456'', car_id = ''car-002'', hotel_id = ''invalid-hotel'',
      flight_id = ''flight-002''\<rparr>"
  let ?rq3 = "\<lparr>user_id = ''user-456'', car_id = ''invalid-car'', hotel_id = ''hotel-002'',
      flight_id = ''flight-002''\<rparr>"
  have a: "snd (trip_booking_saga error_message demo_fexec hotel_desk_closed ?rq1)
     = [Call book_car ''car-002'', Call book_hotel ''hotel-002'',
        Call book_flight ''invalid-flight'',
        Call undo_book_hotel ''hotel_booking_hotel-002'',
        compensation_log hotel_desk_closed undo_book_hotel ''hotel_booking_hotel-002'',
        Call undo_book_car ''car_booking_car-002'',
        compensation_log hotel_desk_closed undo_book_car ''car_booking_car-002'']"
    using saga_compensation_order [of demo_fexec ?rq1
        "ActivityError (ValueError ''Invalid flight ID: invalid-flight'')" error_message
        hotel_desk_closed "''car_booking_car-002''" "''hotel_booking_hotel-002''"]
    by (simp add: demo_bookings del: demo_fexec.simps)
  have b: "compensation_calls (snd (trip_booking_saga error_message demo_fexec hotel_desk_closed ?rq2))
     = [(undo_book_car, ''car_booking_car-002'')]"
    using saga_compensation_order [of demo_fexec ?rq2
        "ActivityError (ValueError ''Invalid hotel ID: invalid-hotel'')" error_message
        hotel_desk_closed "''car_booking_car-002''" "''hotel_booking_hotel-002''"]
    by (simp add: demo_bookings del: demo_fexec.simps)
  have c: "compensation_calls (snd (trip_booking_saga error_message demo_fexec hotel_desk_closed ?rq3))
     = []"
    using saga_compensation_order [of demo_fexec ?rq3
        "ActivityError (ValueError ''Invalid car ID: invalid-car'')" error_message
        hotel_desk_closed "''car_booking_car-002''" "''hotel_booking_hotel-002''"]
    by (simp add: demo_bookings del: demo_fexec.simps)
  show ?thesis
    using a b c by (simp add: compensation_log_def hotel_desk_closed_def)
qed

section \<open>Retries: how many attempts, how long between them\<close>







lemma invoke_non_retryable:
  "act 1 = Inl e \<Longrightarrow> non_retryable_flag e \<Longrightarrow>
   invoke p act = Some \<lparr>outcome = Inl (ActivityError e), attempts = 1, delays = []\<rparr>"
  unfolding invoke_def by (subst invoke_from.simps) (simp add: retries_stop_def)

text \<open>
  C7 (non-retryable short circuit). Under every policy, whatever its
  \<open>maximum_attempts\<close>, an activity whose first failure carries the non-retryable flag
  is attempted exactly once, and the workflow gets the failure as an \<open>ActivityError\<close>
  around it. So \<open>non_retryable_operation\<close> under \<open>RetryPolicy(maximum_attempts=5)\<close> is
  attempted once; the workflow catches the \<open>ActivityError\<close> and its entry is
  \<open>Failed immediately (non-retryable)\<close>.
\<close>

theorem non_retryable_short_circuit:
  "(act 1 = Inl e \<and> non_retryable_flag e \<longrightarrow>
      invoke p act = Some \<lparr>outcome = Inl (ActivityError e), attempts = 1, delays = []\<rparr>)
   \<and> maximum_attempts non_retryable_policy = 5
   \<and> invoke non_retryable_policy (\<lambda>n. non_retryable_operation)
       = Some \<lparr>outcome = Inl (ActivityError
                 (ApplicationError ''This error should not be retried'' ''ValidationError'' True)),
               attempts = 1, delays = []\<rparr>
   \<and> non_retryable = Some ''Failed immediately (non-retryable)''"
proof -
  have i: "invoke non_retryable_policy (\<lambda>n. non_retryable_operation)
       = Some \<lparr>outcome = Inl (ActivityError
                 (ApplicationError ''This error should not be retried'' ''ValidationError'' True)),
               attempts = 1, delays = []\<rparr>"
    by (rule invoke_non_retryable) (simp_all add: non_retryable_operation_def)
  have m: "maximum_attempts non_retryable_policy = 5"
    by (simp add: non_retryable_policy_def RetryPolicy_def)
  have nr: "non_retryable = Some ''Failed immediately (non-retryable)''"
    by (simp add: non_retryable_def i)
  show ?thesis
    using invoke_non_retryable [of act e p] i m nr by blast
qed

theorem non_retryable_short_circuit_witness:
  "non_retryable_operation
     = Inl (ApplicationError ''This error should not be retried'' ''ValidationError'' True)
   \<and> invoke RetryPolicy (\<lambda>n. non_retryable_operation)
       = Some \<lparr>outcome = Inl (ActivityError
                 (ApplicationError ''This error should not be retried'' ''ValidationError'' True)),
               attempts = 1, delays = []\<rparr>"
  using non_retryable_short_circuit [of "\<lambda>n. non_retryable_operation"
      "ApplicationError ''This error should not be retried'' ''ValidationError'' True" RetryPolicy]
  by (simp add: non_retryable_operation_def)

end
